theory Spec2Isabelle
  imports Complex_Main
begin

section \<open>Data model\<close>

text \<open>
  The entity layer of the possession index: \<^verbatim>\<open>src/game/player.py\<close> (the package that
  \<^verbatim>\<open>src/run_utils.py\<close> imports), its older sibling \<^verbatim>\<open>src/soccer/player.py\<close>, and
  \<^verbatim>\<open>create_mask\<close> of \<^verbatim>\<open>src/run_utils.py\<close>.

  Coordinates are numpy floats in the program; here they are real numbers, so
  \<^verbatim>\<open>np.linalg.norm\<close> is the exact Euclidean norm. Every Python exception the code can
  raise on the paths modelled is a value of \<open>py_error\<close>, and a function that can raise
  returns \<open>py_error + 'a\<close>. Python's \<^verbatim>\<open>None\<close> as a result is \<open>None\<close> of an option type.
\<close>

datatype py_error = AttributeError | IndexError | KeyError | TypeError

type_synonym point = "real \<times> real"

text \<open>
  Modelled from the spec: the class \<^verbatim>\<open>Team\<close> is not in src. The spec gives it a name and a
  display colour; the code modelled here only stores and passes Team objects around.
\<close>

record team =
  name :: string
  color :: "nat \<times> nat \<times> nat"

text \<open>The values that the attribute map \<^verbatim>\<open>detection.data\<close> holds under the keys read here.\<close>

datatype pyval = PyNone | PyInt int | PyStr string | PyTeam team

text \<open>
  A norfair \<^verbatim>\<open>Detection\<close>: \<^verbatim>\<open>points\<close> and \<^verbatim>\<open>absolute_points\<close> are arrays of two-dimensional
  rows, \<^verbatim>\<open>data\<close> is a dict.
\<close>

record detection =
  points :: "point list"
  absolute_points :: "point list"
  data :: "string \<rightharpoonup> pyval"

text \<open>The fields that \<^verbatim>\<open>Player.__init__\<close> of \<^verbatim>\<open>game/player.py\<close> sets.\<close>

record player =
  txy :: "point option"
  be_xy :: "point option"
  detection :: "detection option"
  in_possession :: bool
  team :: pyval

text \<open>
  Modelled from the spec: the class \<^verbatim>\<open>Ball\<close> is not in src. A ball is taken as the record of
  what \<^verbatim>\<open>Player\<close> reads from it: the properties \<^verbatim>\<open>center\<close> and \<^verbatim>\<open>center_abs\<close> (null when
  the ball has no geometry), the current detection and the retained last detection, of
  which only the attribute \<^verbatim>\<open>center\<close> is read.
\<close>

record ball_detection =
  det_center :: "point option"

record ball =
  ball_center :: "point option"
  ball_center_abs :: "point option"
  ball_detection :: "ball_detection option"
  last_detection :: "ball_detection option"

section \<open>Helpers standing for Python and numpy primitives\<close>

definition bind_err :: "py_error + 'a \<Rightarrow> ('a \<Rightarrow> py_error + 'b) \<Rightarrow> py_error + 'b" where
  "bind_err m f = (case m of Inl e \<Rightarrow> Inl e | Inr v \<Rightarrow> f v)"

text \<open>\<^verbatim>\<open>points[i]\<close> for a literal index \<open>i \<ge> 0\<close>: IndexError past the last row.\<close>

definition row :: "point list \<Rightarrow> nat \<Rightarrow> py_error + point" where
  "row pts i = (if i < length pts then Inr (pts ! i) else Inl IndexError)"

text \<open>\<^verbatim>\<open>a - b\<close> on two-dimensional arrays, and \<^verbatim>\<open>np.linalg.norm\<close> of the difference.\<close>

definition sub :: "point \<Rightarrow> point \<Rightarrow> point" where
  "sub a b = (fst a - fst b, snd a - snd b)"

definition linalg_norm :: "point \<Rightarrow> real" where
  "linalg_norm v = sqrt ((fst v)\<^sup>2 + (snd v)\<^sup>2)"

section \<open>\<^verbatim>\<open>game/player.py\<close>\<close>

text \<open>
  \<^verbatim>\<open>Player(detection)\<close>: a Detection object is truthy (it defines neither \<^verbatim>\<open>__bool__\<close> nor
  \<^verbatim>\<open>__len__\<close>), so \<^verbatim>\<open>if detection:\<close> tests for \<^verbatim>\<open>None\<close>.
\<close>

definition Player :: "detection option \<Rightarrow> player" where
  "Player det =
     \<lparr>txy = None, be_xy = None, detection = det, in_possession = False,
      team = (case det of
                None \<Rightarrow> PyNone
              | Some d \<Rightarrow> (case data d ''team'' of None \<Rightarrow> PyNone | Some t \<Rightarrow> t))\<rparr>"

definition get_left_foot :: "point list \<Rightarrow> py_error + point" where
  "get_left_foot pts =
     bind_err (row pts 0) (\<lambda>(x1, y1).
     bind_err (row pts 1) (\<lambda>(x2, y2).
       Inr (x1, y2)))"

definition get_right_foot :: "point list \<Rightarrow> py_error + point" where
  "get_right_foot pts = row pts 1"

text \<open>
  \<^verbatim>\<open>get_center(self, points)\<close> overwrites its argument with \<^verbatim>\<open>self.detection.points\<close> in its
  first statement, so the argument is never read.
\<close>

definition get_center :: "player \<Rightarrow> point list \<Rightarrow> py_error + point" where
  "get_center self pts_arg =
     (case detection self of
        None \<Rightarrow> Inl AttributeError
      | Some d \<Rightarrow>
          bind_err (row (points d) 0) (\<lambda>(x1, y1).
          bind_err (row (points d) 1) (\<lambda>(x2, y2).
            Inr ((x1 + x2) / 2, (y1 + y2) / 2))))"

definition left_foot :: "player \<Rightarrow> py_error + point" where
  "left_foot self =
     (case detection self of
        None \<Rightarrow> Inl AttributeError
      | Some d \<Rightarrow> get_left_foot (points d))"

definition right_foot :: "player \<Rightarrow> py_error + point" where
  "right_foot self =
     (case detection self of
        None \<Rightarrow> Inl AttributeError
      | Some d \<Rightarrow> get_right_foot (points d))"

definition center :: "player \<Rightarrow> py_error + point" where
  "center self =
     (case detection self of
        None \<Rightarrow> Inl AttributeError
      | Some d \<Rightarrow> get_center self (points d))"

definition left_foot_abs :: "player \<Rightarrow> py_error + point" where
  "left_foot_abs self =
     (case detection self of
        None \<Rightarrow> Inl AttributeError
      | Some d \<Rightarrow> get_left_foot (absolute_points d))"

definition right_foot_abs :: "player \<Rightarrow> py_error + point" where
  "right_foot_abs self =
     (case detection self of
        None \<Rightarrow> Inl AttributeError
      | Some d \<Rightarrow> get_right_foot (absolute_points d))"

definition center_abs :: "player \<Rightarrow> py_error + point" where
  "center_abs self =
     (case detection self of
        None \<Rightarrow> Inl AttributeError
      | Some d \<Rightarrow> get_center self (absolute_points d))"

definition feet :: "player \<Rightarrow> py_error + (point \<times> point)" where
  "feet self =
     bind_err (left_foot self) (\<lambda>lf.
     bind_err (right_foot self) (\<lambda>rf.
       Inr (lf, rf)))"

section \<open>\<^verbatim>\<open>soccer/player.py\<close>\<close>

record soccer_player =
  s_detection :: "detection option"
  s_team :: pyval

definition soccer_Player :: "detection option \<Rightarrow> soccer_player" where
  "soccer_Player det =
     \<lparr>s_detection = det,
      s_team = (case det of
                  None \<Rightarrow> PyNone
                | Some d \<Rightarrow> (case data d ''team'' of None \<Rightarrow> PyNone | Some t \<Rightarrow> t))\<rparr>"

definition soccer_left_foot :: "soccer_player \<Rightarrow> py_error + point" where
  "soccer_left_foot self =
     (case s_detection self of
        None \<Rightarrow> Inl AttributeError
      | Some d \<Rightarrow>
          bind_err (row (points d) 0) (\<lambda>(x1, y1).
          bind_err (row (points d) 1) (\<lambda>(x2, y2).
            Inr (x1, y2))))"

definition soccer_right_foot :: "soccer_player \<Rightarrow> py_error + point" where
  "soccer_right_foot self =
     (case s_detection self of
        None \<Rightarrow> Inl AttributeError
      | Some d \<Rightarrow> row (points d) 1)"

definition soccer_feet :: "soccer_player \<Rightarrow> py_error + (point \<times> point)" where
  "soccer_feet self =
     bind_err (soccer_left_foot self) (\<lambda>lf.
     bind_err (soccer_right_foot self) (\<lambda>rf.
       Inr (lf, rf)))"

text \<open>\<^verbatim>\<open>min(a, b)\<close> on two floats is \<open>min\<close>; both feet are read again after the guard.\<close>

definition soccer_distance_to_ball :: "soccer_player \<Rightarrow> ball \<Rightarrow> py_error + real option" where
  "soccer_distance_to_ball self b =
     (case s_detection self of
        None \<Rightarrow> Inr None
      | Some d \<Rightarrow>
          (case ball_center b of
             None \<Rightarrow> Inr None
           | Some bc \<Rightarrow>
               bind_err (soccer_left_foot self) (\<lambda>lf.
               bind_err (soccer_right_foot self) (\<lambda>rf.
                 Inr (Some (min (linalg_norm (sub bc lf)) (linalg_norm (sub bc rf))))))))"

definition soccer_closest_foot_to_ball :: "soccer_player \<Rightarrow> ball \<Rightarrow> py_error + point option" where
  "soccer_closest_foot_to_ball self b =
     (case s_detection self of
        None \<Rightarrow> Inr None
      | Some d \<Rightarrow>
          (case ball_center b of
             None \<Rightarrow> Inr None
           | Some bc \<Rightarrow>
               bind_err (soccer_left_foot self) (\<lambda>lf.
               bind_err (soccer_right_foot self) (\<lambda>rf.
                 if linalg_norm (sub bc lf) < linalg_norm (sub bc rf)
                 then bind_err (soccer_left_foot self) (\<lambda>r. Inr (Some r))
                 else bind_err (soccer_right_foot self) (\<lambda>r. Inr (Some r))))))"

text \<open>
  \<^verbatim>\<open>Team.from_name\<close> is not in src; \<^verbatim>\<open>from_detections\<close> takes it as the parameter
  \<open>from_name\<close>, from the roster and the classification value to the Team found or
  \<^verbatim>\<open>None\<close>. The loop appends one player per detection that is not \<^verbatim>\<open>None\<close>; the write
  \<^verbatim>\<open>detection.data["team"] = team\<close> happens before \<^verbatim>\<open>Player(detection=detection)\<close> reads
  the map. The write changes the caller's Detection object in place; here the player
  holds the detection as written.
\<close>

definition write_team ::
  "(team list \<Rightarrow> pyval \<Rightarrow> pyval) \<Rightarrow> team list \<Rightarrow> detection \<Rightarrow> detection" where
  "write_team from_name teams d =
     (case data d ''classification'' of
        None \<Rightarrow> d
      | Some team_name \<Rightarrow> d\<lparr>data := (data d)(''team'' \<mapsto> from_name teams team_name)\<rparr>)"

fun soccer_from_detections_loop ::
  "(team list \<Rightarrow> pyval \<Rightarrow> pyval) \<Rightarrow> team list \<Rightarrow> detection option list \<Rightarrow>
   soccer_player list \<Rightarrow> soccer_player list" where
  "soccer_from_detections_loop from_name teams [] players = players"
| "soccer_from_detections_loop from_name teams (None # rest) players =
     soccer_from_detections_loop from_name teams rest players"
| "soccer_from_detections_loop from_name teams (Some d # rest) players =
     soccer_from_detections_loop from_name teams rest
       (players @ [soccer_Player (Some (write_team from_name teams d))])"

definition soccer_from_detections ::
  "(team list \<Rightarrow> pyval \<Rightarrow> pyval) \<Rightarrow> detection option list \<Rightarrow> team list \<Rightarrow> soccer_player list" where
  "soccer_from_detections from_name detections teams =
     soccer_from_detections_loop from_name teams detections []"

section \<open>\<^verbatim>\<open>game/player.py\<close>: queries against the ball\<close>

definition distance_to_ball :: "player \<Rightarrow> ball \<Rightarrow> py_error + real option" where
  "distance_to_ball self b =
     (case detection self of
        None \<Rightarrow> Inr None
      | Some d \<Rightarrow>
          (case ball_center b of
             None \<Rightarrow> Inr None
           | Some bc \<Rightarrow>
               bind_err (center self) (\<lambda>c. Inr (Some (linalg_norm (sub bc c))))))"

text \<open>
  In the last statement \<^verbatim>\<open>ball.detection.center\<close> is read first (AttributeError when the
  ball has no detection), then \<^verbatim>\<open>self.center\<close>, then the subtraction (TypeError on
  \<^verbatim>\<open>None\<close>).
\<close>

definition distance_to_last_ball :: "player \<Rightarrow> ball \<Rightarrow> py_error + real option" where
  "distance_to_last_ball self b =
     (case detection self of
        None \<Rightarrow> Inr None
      | Some d \<Rightarrow>
          (case ball_center b of
             None \<Rightarrow>
               (case last_detection b of
                  None \<Rightarrow> Inr None
                | Some ld \<Rightarrow>
                    (case det_center ld of
                       None \<Rightarrow> Inr None
                     | Some lc \<Rightarrow>
                         bind_err (center self) (\<lambda>c. Inr (Some (linalg_norm (sub lc c))))))
           | Some bc \<Rightarrow>
               (case ball_detection b of
                  None \<Rightarrow> Inl AttributeError
                | Some bd \<Rightarrow>
                    bind_err (center self) (\<lambda>c.
                      (case det_center bd of
                         None \<Rightarrow> Inl TypeError
                       | Some dc \<Rightarrow> Inr (Some (linalg_norm (sub dc c))))))))"

definition closest_foot_to_ball :: "player \<Rightarrow> ball \<Rightarrow> py_error + point option" where
  "closest_foot_to_ball self b =
     (case detection self of
        None \<Rightarrow> Inr None
      | Some d \<Rightarrow>
          (case ball_center b of
             None \<Rightarrow> Inr None
           | Some bc \<Rightarrow>
               bind_err (left_foot self) (\<lambda>lf.
               bind_err (right_foot self) (\<lambda>rf.
                 if linalg_norm (sub bc lf) < linalg_norm (sub bc rf)
                 then bind_err (left_foot self) (\<lambda>r. Inr (Some r))
                 else bind_err (right_foot self) (\<lambda>r. Inr (Some r))))))"

text \<open>
  \<^verbatim>\<open>center_distance <= self.distance_to_ball(ball)\<close> raises TypeError when
  \<^verbatim>\<open>distance_to_ball\<close> returns \<^verbatim>\<open>None\<close>; the condition is evaluated before \<^verbatim>\<open>self.center\<close>.
\<close>

definition closest_center_to_ball_abs :: "player \<Rightarrow> ball \<Rightarrow> py_error + point option" where
  "closest_center_to_ball_abs self b =
     (case detection self of
        None \<Rightarrow> Inr None
      | Some d \<Rightarrow>
          (case ball_center_abs b of
             None \<Rightarrow> Inr None
           | Some bca \<Rightarrow>
               bind_err (center_abs self) (\<lambda>ca.
               bind_err (distance_to_ball self b) (\<lambda>dist.
                 (case dist of
                    None \<Rightarrow> Inl TypeError
                  | Some pixel_distance \<Rightarrow>
                      if linalg_norm (sub bca ca) \<le> pixel_distance
                      then bind_err (center self) (\<lambda>c. Inr (Some c))
                      else Inr None)))))"

definition closest_foot_to_ball_abs :: "player \<Rightarrow> ball \<Rightarrow> py_error + point option" where
  "closest_foot_to_ball_abs self b =
     (case detection self of
        None \<Rightarrow> Inr None
      | Some d \<Rightarrow>
          (case ball_center_abs b of
             None \<Rightarrow> Inr None
           | Some bca \<Rightarrow>
               bind_err (left_foot_abs self) (\<lambda>lf.
               bind_err (right_foot_abs self) (\<lambda>rf.
                 if linalg_norm (sub bca lf) < linalg_norm (sub bca rf)
                 then bind_err (left_foot_abs self) (\<lambda>r. Inr (Some r))
                 else bind_err (right_foot_abs self) (\<lambda>r. Inr (Some r))))))"

section \<open>\<^verbatim>\<open>game/player.py\<close>: identity\<close>

text \<open>
  The right operand of \<^verbatim>\<open>==\<close> is any Python object: a Player, or something that fails
  \<^verbatim>\<open>isinstance(other, Player)\<close> (\<^verbatim>\<open>None\<close> included). Reading \<^verbatim>\<open>.data\<close> of a \<^verbatim>\<open>None\<close>
  detection raises AttributeError, \<^verbatim>\<open>data["id"]\<close> without the key raises KeyError; the
  left player's id is read first.
\<close>

datatype pyobj = PlayerObj player | NotAPlayer

definition lookup_id :: "player \<Rightarrow> py_error + pyval" where
  "lookup_id p =
     (case detection p of
        None \<Rightarrow> Inl AttributeError
      | Some d \<Rightarrow> (case data d ''id'' of None \<Rightarrow> Inl KeyError | Some v \<Rightarrow> Inr v))"

definition player_eq :: "player \<Rightarrow> pyobj \<Rightarrow> py_error + bool" where
  "player_eq self other =
     (case other of
        NotAPlayer \<Rightarrow> Inr False
      | PlayerObj other_player \<Rightarrow>
          bind_err (lookup_id self) (\<lambda>self_id.
          bind_err (lookup_id other_player) (\<lambda>other_id.
            Inr (self_id = other_id))))"

text \<open>
  \<^verbatim>\<open>have_same_id(player1, player2)\<close>: an argument is a Player or \<^verbatim>\<open>None\<close>. A Player object
  is always truthy (the class defines neither \<^verbatim>\<open>__bool__\<close> nor \<^verbatim>\<open>__len__\<close>), so
  \<^verbatim>\<open>not player1\<close> holds exactly for \<^verbatim>\<open>None\<close>. The \<^verbatim>\<open>or\<close> of the second test stops at its
  first true operand.
\<close>

definition have_same_id :: "player option \<Rightarrow> player option \<Rightarrow> py_error + bool" where
  "have_same_id player1 player2 =
     (case player1 of
        None \<Rightarrow> Inr False
      | Some p1 \<Rightarrow>
          (case player2 of
             None \<Rightarrow> Inr False
           | Some p2 \<Rightarrow>
               (case detection p1 of
                  None \<Rightarrow> Inl AttributeError
                | Some d1 \<Rightarrow>
                    (case data d1 ''id'' of
                       None \<Rightarrow> Inr False
                     | Some i1 \<Rightarrow>
                         (case detection p2 of
                            None \<Rightarrow> Inl AttributeError
                          | Some d2 \<Rightarrow>
                              (case data d2 ''id'' of
                                 None \<Rightarrow> Inr False
                               | Some i2 \<Rightarrow> player_eq p1 (PlayerObj p2)))))))"

section \<open>\<^verbatim>\<open>game/player.py\<close>: \<^verbatim>\<open>from_detections\<close>\<close>

fun from_detections_loop ::
  "(team list \<Rightarrow> pyval \<Rightarrow> pyval) \<Rightarrow> team list \<Rightarrow> detection option list \<Rightarrow>
   player list \<Rightarrow> player list" where
  "from_detections_loop from_name teams [] players = players"
| "from_detections_loop from_name teams (None # rest) players =
     from_detections_loop from_name teams rest players"
| "from_detections_loop from_name teams (Some d # rest) players =
     from_detections_loop from_name teams rest
       (players @ [Player (Some (write_team from_name teams d))])"

definition from_detections ::
  "(team list \<Rightarrow> pyval \<Rightarrow> pyval) \<Rightarrow> detection option list \<Rightarrow> team list \<Rightarrow> player list" where
  "from_detections from_name detections teams =
     from_detections_loop from_name teams detections []"

section \<open>\<^verbatim>\<open>run_utils.py\<close>: \<^verbatim>\<open>create_mask\<close>\<close>

text \<open>
  A mask is a two-dimensional array, a list of rows. Of the frame only
  \<^verbatim>\<open>frame.shape[:2]\<close> is read here. \<^verbatim>\<open>Converter.Detections_to_DataFrame\<close> and
  \<^verbatim>\<open>BaseDetection.generate_predictions_mask\<close> are not in src and are the parameters
  \<open>to_df\<close> and \<open>gen_mask\<close>.

  \<^verbatim>\<open>mask[r0:r1, c0:c1] = v\<close> with non-negative bounds writes the rows
  \<open>min r0 n \<le> i < min r1 n\<close> and, in them, the columns of the second slice: a slice whose
  start is not below its stop selects nothing.
\<close>

type_synonym mask = "nat list list"

record frame =
  shape :: "nat \<times> nat"

definition slice_indices :: "nat \<Rightarrow> nat \<Rightarrow> nat \<Rightarrow> nat list" where
  "slice_indices start stop n = [min start n ..< min stop n]"

definition assign_rect :: "mask \<Rightarrow> nat \<Rightarrow> nat \<Rightarrow> nat \<Rightarrow> nat \<Rightarrow> nat \<Rightarrow> mask" where
  "assign_rect m r0 r1 c0 c1 v =
     map (\<lambda>(i, r).
            if i \<in> set (slice_indices r0 r1 (length m))
            then map (\<lambda>(j, x). if j \<in> set (slice_indices c0 c1 (length r)) then v else x)
                     (enumerate 0 r)
            else r)
         (enumerate 0 m)"

definition ones :: "nat \<times> nat \<Rightarrow> mask" where
  "ones shp = replicate (fst shp) (replicate (snd shp) 1)"

definition create_mask ::
  "(detection list \<Rightarrow> 'df) \<Rightarrow> ('df \<Rightarrow> frame \<Rightarrow> nat \<Rightarrow> mask) \<Rightarrow> frame \<Rightarrow> detection list \<Rightarrow> mask" where
  "create_mask to_df gen_mask fr detections =
     (let mask0 = (if detections = [] then ones (shape fr)
                   else gen_mask (to_df detections) fr 40);
          mask1 = assign_rect mask0 363 118 856 64 0;
          mask2 = assign_rect mask1 1589 143 1805 95 0
      in mask2)"

section \<open>Team lookup of the specification\<close>

text \<open>
  Modelled from the spec: \<^verbatim>\<open>Team.from_name\<close> is not in src. The specification's lookup
  returns the Team of the roster whose name is exactly the label, or \<^verbatim>\<open>None\<close>. It is
  used as one instance of the parameter \<open>from_name\<close>.
\<close>

definition from_name_spec :: "team list \<Rightarrow> pyval \<Rightarrow> pyval" where
  "from_name_spec teams v =
     (case v of
        PyStr n \<Rightarrow> (case find (\<lambda>t. name t = n) teams of None \<Rightarrow> PyNone | Some t \<Rightarrow> PyTeam t)
      | _ \<Rightarrow> PyNone)"

section \<open>The distance of the specification\<close>

text \<open>
  The specification's \<^verbatim>\<open>euclidean_distance(p, q)\<close>: the square root of the sum of the
  squared coordinate differences. The code computes it as \<^verbatim>\<open>np.linalg.norm(p - q)\<close>.
\<close>

definition euclidean_distance :: "point \<Rightarrow> point \<Rightarrow> real" where
  "euclidean_distance p q = sqrt ((fst p - fst q)\<^sup>2 + (snd p - snd q)\<^sup>2)"

section \<open>Geometry accessors\<close>

lemma row_in_range: "i < length pts \<Longrightarrow> row pts i = Inr (pts ! i)"
  by (simp add: row_def)

lemma row_out_of_range: "length pts \<le> i \<Longrightarrow> row pts i = Inl IndexError"
  by (simp add: row_def)

lemma linalg_norm_sub: "linalg_norm (sub a b) = euclidean_distance a b"
  by (simp add: linalg_norm_def sub_def euclidean_distance_def)

lemma get_left_foot_ok:
  "2 \<le> length pts \<Longrightarrow> get_left_foot pts = Inr (fst (pts ! 0), snd (pts ! 1))"
  by (auto simp: get_left_foot_def row_def bind_err_def split: prod.splits)

lemma get_right_foot_ok: "2 \<le> length pts \<Longrightarrow> get_right_foot pts = Inr (pts ! 1)"
  by (simp add: get_right_foot_def row_def)

lemma get_center_ok:
  "detection p = Some d \<Longrightarrow> 2 \<le> length (points d) \<Longrightarrow>
   get_center p arg =
     Inr ((fst (points d ! 0) + fst (points d ! 1)) / 2,
          (snd (points d ! 0) + snd (points d ! 1)) / 2)"
  by (auto simp: get_center_def row_def bind_err_def split: prod.splits)

lemma soccer_left_foot_ok:
  "s_detection q = Some d \<Longrightarrow> 2 \<le> length (points d) \<Longrightarrow>
   soccer_left_foot q = Inr (fst (points d ! 0), snd (points d ! 1))"
  by (auto simp: soccer_left_foot_def row_def bind_err_def split: prod.splits)

lemma soccer_right_foot_ok:
  "s_detection q = Some d \<Longrightarrow> 2 \<le> length (points d) \<Longrightarrow>
   soccer_right_foot q = Inr (points d ! 1)"
  by (simp add: soccer_right_foot_def row_def)

lemma get_left_foot_two: "get_left_foot [(x1, y1), (x2, y2)] = Inr (x1, y2)"
  by (simp add: get_left_foot_def row_def bind_err_def)

text \<open>
  C2 (as the code has it). On a two-point region \<open>[(x1,y1),(x2,y2)]\<close> the left-foot accessor
  of both packages returns \<open>(x1, y2)\<close>: the first corner's x and the second corner's y. That
  is \<open>(x1, max y1 y2)\<close> whenever \<open>y1 \<le> y2\<close>, the corner order of an xyxy box.
\<close>

theorem left_foot_second_corner_y:
  assumes "detection p = Some d" and "s_detection q = Some d"
    and "points d = [(x1, y1), (x2, y2)]"
  shows "left_foot p = Inr (x1, y2) \<and> soccer_left_foot q = Inr (x1, y2) \<and>
         (y1 \<le> y2 \<longrightarrow>
            left_foot p = Inr (x1, max y1 y2) \<and> soccer_left_foot q = Inr (x1, max y1 y2))"
  using assms
  by (simp add: left_foot_def soccer_left_foot_def get_left_foot_two row_def
      bind_err_def max_def)

text \<open>
  On the region \<open>[(0,5),(2,1)]\<close>, whose first corner is the lower one, the accessor returns
  \<open>(0,1)\<close> and not \<open>(0, max 5 1)\<close>.
\<close>

theorem left_foot_max_counterexample:
  "left_foot (Player (Some \<lparr>points = [(0, 5), (2, 1)], absolute_points = [(0, 5), (2, 1)],
                            data = Map.empty\<rparr>)) = Inr (0, 1) \<and>
   (0, 1) \<noteq> (0, max 5 (1::real))"
  by (simp add: Player_def left_foot_def get_left_foot_def row_def bind_err_def)

text \<open>The box \<open>((0,0),(2,4))\<close> of the specification's worked example.\<close>

theorem left_foot_second_corner_y_witness:
  "left_foot (Player (Some \<lparr>points = [(0, 0), (2, 4)], absolute_points = [(0, 0), (2, 4)],
                            data = Map.empty\<rparr>)) = Inr (0, max 0 4) \<and>
   soccer_left_foot (soccer_Player (Some \<lparr>points = [(0, 0), (2, 4)],
                            absolute_points = [(0, 0), (2, 4)], data = Map.empty\<rparr>)) = Inr (0, 4)"
  using left_foot_second_corner_y
    [of "Player (Some \<lparr>points = [(0, 0), (2, 4)], absolute_points = [(0, 0), (2, 4)],
                         data = Map.empty\<rparr>)"
        "\<lparr>points = [(0, 0), (2, 4)], absolute_points = [(0, 0), (2, 4)], data = Map.empty\<rparr>"
        "soccer_Player (Some \<lparr>points = [(0, 0), (2, 4)], absolute_points = [(0, 0), (2, 4)],
                         data = Map.empty\<rparr>)" 0 0 2 4]
  by (simp add: Player_def soccer_Player_def)

section \<open>Players without a detection\<close>

text \<open>
  C1 (as the code has it). No geometric accessor tests the detection: on a player whose
  detection is \<^verbatim>\<open>None\<close>, \<^verbatim>\<open>left_foot\<close>, \<^verbatim>\<open>right_foot\<close>, \<^verbatim>\<open>feet\<close>, \<^verbatim>\<open>center\<close>,
  \<^verbatim>\<open>left_foot_abs\<close>, \<^verbatim>\<open>right_foot_abs\<close> and \<^verbatim>\<open>center_abs\<close> raise AttributeError (and so do
  the three accessors of \<^verbatim>\<open>soccer/player.py\<close>); none returns coordinates. The test for a
  missing detection is in the queries that call them, which return \<^verbatim>\<open>None\<close>.
\<close>

theorem accessors_raise_on_null_detection:
  "(detection p = None \<longrightarrow>
      left_foot p = Inl AttributeError \<and> right_foot p = Inl AttributeError \<and>
      feet p = Inl AttributeError \<and> center p = Inl AttributeError \<and>
      left_foot_abs p = Inl AttributeError \<and> right_foot_abs p = Inl AttributeError \<and>
      center_abs p = Inl AttributeError \<and>
      distance_to_ball p b = Inr None \<and> distance_to_last_ball p b = Inr None \<and>
      closest_foot_to_ball p b = Inr None \<and> closest_center_to_ball_abs p b = Inr None \<and>
      closest_foot_to_ball_abs p b = Inr None) \<and>
   (s_detection q = None \<longrightarrow>
      soccer_left_foot q = Inl AttributeError \<and> soccer_right_foot q = Inl AttributeError \<and>
      soccer_feet q = Inl AttributeError \<and>
      soccer_distance_to_ball q b = Inr None \<and> soccer_closest_foot_to_ball q b = Inr None)"
  by (simp add: left_foot_def right_foot_def feet_def center_def left_foot_abs_def
      right_foot_abs_def center_abs_def distance_to_ball_def distance_to_last_ball_def
      closest_foot_to_ball_def closest_center_to_ball_abs_def closest_foot_to_ball_abs_def
      soccer_left_foot_def soccer_right_foot_def soccer_feet_def soccer_distance_to_ball_def
      soccer_closest_foot_to_ball_def bind_err_def)

text \<open>\<^verbatim>\<open>Player(None)\<close> is such a player in both packages.\<close>

theorem accessors_raise_on_null_detection_witness:
  "detection (Player None) = None \<and> s_detection (soccer_Player None) = None \<and>
   left_foot (Player None) = Inl AttributeError \<and>
   center_abs (Player None) = Inl AttributeError \<and>
   feet (Player None) = Inl AttributeError \<and>
   soccer_feet (soccer_Player None) = Inl AttributeError"
  using accessors_raise_on_null_detection [of "Player None" undefined "soccer_Player None"]
  by (simp add: Player_def soccer_Player_def)

text \<open>
  The accessors of a player built from no detection raise; the claim that they return
  \<^verbatim>\<open>None\<close> without raising fails there.
\<close>

theorem null_detection_accessor_counterexample:
  "left_foot (Player None) = Inl AttributeError \<and>
   right_foot (Player None) = Inl AttributeError \<and>
   feet (Player None) = Inl AttributeError \<and>
   center (Player None) = Inl AttributeError \<and>
   left_foot_abs (Player None) = Inl AttributeError \<and>
   right_foot_abs (Player None) = Inl AttributeError \<and>
   center_abs (Player None) = Inl AttributeError \<and>
   soccer_left_foot (soccer_Player None) = Inl AttributeError"
  by (simp add: Player_def soccer_Player_def left_foot_def right_foot_def feet_def center_def
      left_foot_abs_def right_foot_abs_def center_abs_def soccer_left_foot_def bind_err_def)

section \<open>Distance to the ball\<close>

lemma center_ok:
  "detection p = Some d \<Longrightarrow> 2 \<le> length (points d) \<Longrightarrow>
   center p =
     Inr ((fst (points d ! 0) + fst (points d ! 1)) / 2,
          (snd (points d ! 0) + snd (points d ! 1)) / 2)"
  by (simp add: center_def get_center_ok)

lemma left_foot_ok:
  "detection p = Some d \<Longrightarrow> 2 \<le> length (points d) \<Longrightarrow>
   left_foot p = Inr (fst (points d ! 0), snd (points d ! 1))"
  by (simp add: left_foot_def get_left_foot_ok)

lemma right_foot_ok:
  "detection p = Some d \<Longrightarrow> 2 \<le> length (points d) \<Longrightarrow> right_foot p = Inr (points d ! 1)"
  by (simp add: right_foot_def get_right_foot_ok)

text \<open>
  C4 (as the code has it). \<^verbatim>\<open>distance_to_ball\<close> returns \<^verbatim>\<open>None\<close> when the player has no
  detection or the ball has no center, in both packages. Otherwise, on a detection of at
  least two points, the player of \<^verbatim>\<open>game/player.py\<close> returns the Euclidean distance from
  the ball's center to the midpoint of the first two points (the player's center), and the
  player of \<^verbatim>\<open>soccer/player.py\<close> returns the smaller of the Euclidean distances from the
  ball's center to the left foot and to the right foot.
\<close>

theorem distance_to_ball_center_or_feet:
  "(detection p = None \<or> ball_center b = None \<longrightarrow> distance_to_ball p b = Inr None) \<and>
   (s_detection q = None \<or> ball_center b = None \<longrightarrow> soccer_distance_to_ball q b = Inr None) \<and>
   (detection p = Some d \<and> 2 \<le> length (points d) \<and> ball_center b = Some bc \<longrightarrow>
      (let c = ((fst (points d ! 0) + fst (points d ! 1)) / 2,
                (snd (points d ! 0) + snd (points d ! 1)) / 2)
       in center p = Inr c \<and>
          distance_to_ball p b = Inr (Some (euclidean_distance bc c)))) \<and>
   (s_detection q = Some d \<and> 2 \<le> length (points d) \<and> ball_center b = Some bc \<longrightarrow>
      (let lf = (fst (points d ! 0), snd (points d ! 1)); rf = points d ! 1
       in soccer_left_foot q = Inr lf \<and> soccer_right_foot q = Inr rf \<and>
          soccer_distance_to_ball q b =
            Inr (Some (min (euclidean_distance bc lf) (euclidean_distance bc rf)))))"
proof (intro conjI impI)
  assume "detection p = None \<or> ball_center b = None"
  then show "distance_to_ball p b = Inr None"
    by (auto simp: distance_to_ball_def split: option.splits)
next
  assume "s_detection q = None \<or> ball_center b = None"
  then show "soccer_distance_to_ball q b = Inr None"
    by (auto simp: soccer_distance_to_ball_def split: option.splits)
next
  assume h: "detection p = Some d \<and> 2 \<le> length (points d) \<and> ball_center b = Some bc"
  then show "let c = ((fst (points d ! 0) + fst (points d ! 1)) / 2,
                (snd (points d ! 0) + snd (points d ! 1)) / 2)
       in center p = Inr c \<and>
          distance_to_ball p b = Inr (Some (euclidean_distance bc c))"
    by (simp add: Let_def distance_to_ball_def center_ok bind_err_def linalg_norm_sub)
next
  assume h: "s_detection q = Some d \<and> 2 \<le> length (points d) \<and> ball_center b = Some bc"
  then show "let lf = (fst (points d ! 0), snd (points d ! 1)); rf = points d ! 1
       in soccer_left_foot q = Inr lf \<and> soccer_right_foot q = Inr rf \<and>
          soccer_distance_to_ball q b =
            Inr (Some (min (euclidean_distance bc lf) (euclidean_distance bc rf)))"
    by (simp add: Let_def soccer_distance_to_ball_def soccer_left_foot_ok soccer_right_foot_ok
        bind_err_def linalg_norm_sub)
qed

text \<open>
  A ball at the center \<open>(1,0)\<close> of the box \<open>((0,0),(2,0))\<close> is at distance 0 from the
  player's center; \<^verbatim>\<open>distance_to_ball\<close> of \<^verbatim>\<open>soccer/player.py\<close> returns 1, the distance to
  either foot.
\<close>

theorem soccer_distance_to_ball_counterexample:
  "center (Player (Some \<lparr>points = [(0, 0), (2, 0)], absolute_points = [(0, 0), (2, 0)],
                         data = Map.empty\<rparr>)) = Inr (1, 0) \<and>
   euclidean_distance (1, 0) (1, 0) = 0 \<and>
   soccer_distance_to_ball
     (soccer_Player (Some \<lparr>points = [(0, 0), (2, 0)], absolute_points = [(0, 0), (2, 0)],
                           data = Map.empty\<rparr>))
     \<lparr>ball_center = Some (1, 0), ball_center_abs = Some (1, 0),
      ball_detection = Some \<lparr>det_center = Some (1, 0)\<rparr>,
      last_detection = Some \<lparr>det_center = Some (1, 0)\<rparr>\<rparr> = Inr (Some 1)"
  by (simp add: Player_def soccer_Player_def center_def get_center_def row_def bind_err_def
      euclidean_distance_def soccer_distance_to_ball_def soccer_left_foot_def
      soccer_right_foot_def linalg_norm_def sub_def)

text \<open>The box \<open>((0,0),(2,4))\<close> with the ball at its center \<open>(1,2)\<close>, and a player without detection.\<close>

theorem distance_to_ball_center_or_feet_witness:
  "distance_to_ball
     (Player (Some \<lparr>points = [(0, 0), (2, 4)], absolute_points = [(0, 0), (2, 4)],
                    data = Map.empty\<rparr>))
     \<lparr>ball_center = Some (1, 2), ball_center_abs = Some (1, 2),
      ball_detection = Some \<lparr>det_center = Some (1, 2)\<rparr>,
      last_detection = None\<rparr> = Inr (Some 0) \<and>
   soccer_distance_to_ball
     (soccer_Player (Some \<lparr>points = [(0, 0), (2, 4)], absolute_points = [(0, 0), (2, 4)],
                    data = Map.empty\<rparr>))
     \<lparr>ball_center = Some (1, 2), ball_center_abs = Some (1, 2),
      ball_detection = Some \<lparr>det_center = Some (1, 2)\<rparr>,
      last_detection = None\<rparr> = Inr (Some (sqrt 5)) \<and>
   distance_to_ball (Player None)
     \<lparr>ball_center = Some (1, 2), ball_center_abs = Some (1, 2),
      ball_detection = Some \<lparr>det_center = Some (1, 2)\<rparr>,
      last_detection = None\<rparr> = Inr None"
  using distance_to_ball_center_or_feet
    [of "Player (Some \<lparr>points = [(0, 0), (2, 4)], absolute_points = [(0, 0), (2, 4)],
                    data = Map.empty\<rparr>)"
        "\<lparr>ball_center = Some (1, 2), ball_center_abs = Some (1, 2),
      ball_detection = Some \<lparr>det_center = Some (1, 2)\<rparr>,
      last_detection = None\<rparr>"
        "soccer_Player (Some \<lparr>points = [(0, 0), (2, 4)], absolute_points = [(0, 0), (2, 4)],
                    data = Map.empty\<rparr>)"
        "\<lparr>points = [(0, 0), (2, 4)], absolute_points = [(0, 0), (2, 4)],
                    data = Map.empty\<rparr>" "(1, 2)"]
    distance_to_ball_center_or_feet
    [of "Player None"
        "\<lparr>ball_center = Some (1, 2), ball_center_abs = Some (1, 2),
      ball_detection = Some \<lparr>det_center = Some (1, 2)\<rparr>,
      last_detection = None\<rparr>"]
  by (simp add: Player_def soccer_Player_def euclidean_distance_def Let_def)

section \<open>Closest foot\<close>

text \<open>
  C5. For a player whose detection has at least two points (a bounding region) and a ball
  with a center, \<^verbatim>\<open>closest_foot_to_ball\<close> returns the left foot exactly when the Euclidean
  distance from the ball's center to the left foot is strictly less than the distance to
  the right foot, and the right foot otherwise; on a tie it returns the right foot. The
  same holds in \<^verbatim>\<open>soccer/player.py\<close>.
\<close>

theorem closest_foot_to_ball_strict_left:
  assumes "ball_center b = Some bc" and "2 \<le> length (points d)"
  shows
    "(detection p = Some d \<longrightarrow>
        (let lf = (fst (points d ! 0), snd (points d ! 1)); rf = points d ! 1
         in left_foot p = Inr lf \<and> right_foot p = Inr rf \<and>
            closest_foot_to_ball p b =
              Inr (Some (if euclidean_distance bc lf < euclidean_distance bc rf
                         then lf else rf)) \<and>
            (euclidean_distance bc lf = euclidean_distance bc rf \<longrightarrow>
               closest_foot_to_ball p b = Inr (Some rf)))) \<and>
     (s_detection q = Some d \<longrightarrow>
        (let lf = (fst (points d ! 0), snd (points d ! 1)); rf = points d ! 1
         in soccer_left_foot q = Inr lf \<and> soccer_right_foot q = Inr rf \<and>
            soccer_closest_foot_to_ball q b =
              Inr (Some (if euclidean_distance bc lf < euclidean_distance bc rf
                         then lf else rf)) \<and>
            (euclidean_distance bc lf = euclidean_distance bc rf \<longrightarrow>
               soccer_closest_foot_to_ball q b = Inr (Some rf))))"
proof (intro conjI impI)
  assume h: "detection p = Some d"
  show "let lf = (fst (points d ! 0), snd (points d ! 1)); rf = points d ! 1
         in left_foot p = Inr lf \<and> right_foot p = Inr rf \<and>
            closest_foot_to_ball p b =
              Inr (Some (if euclidean_distance bc lf < euclidean_distance bc rf
                         then lf else rf)) \<and>
            (euclidean_distance bc lf = euclidean_distance bc rf \<longrightarrow>
               closest_foot_to_ball p b = Inr (Some rf))"
    using h assms
    by (simp add: Let_def closest_foot_to_ball_def left_foot_ok right_foot_ok bind_err_def
        linalg_norm_sub)
next
  assume h: "s_detection q = Some d"
  show "let lf = (fst (points d ! 0), snd (points d ! 1)); rf = points d ! 1
         in soccer_left_foot q = Inr lf \<and> soccer_right_foot q = Inr rf \<and>
            soccer_closest_foot_to_ball q b =
              Inr (Some (if euclidean_distance bc lf < euclidean_distance bc rf
                         then lf else rf)) \<and>
            (euclidean_distance bc lf = euclidean_distance bc rf \<longrightarrow>
               soccer_closest_foot_to_ball q b = Inr (Some rf))"
    using h assms
    by (simp add: Let_def soccer_closest_foot_to_ball_def soccer_left_foot_ok
        soccer_right_foot_ok bind_err_def linalg_norm_sub)
qed

text \<open>
  The tie of the specification's worked example: box \<open>((0,0),(2,4))\<close>, ball at \<open>(1,4)\<close>,
  both feet at distance 1, the right foot \<open>(2,4)\<close> is returned.
\<close>

theorem closest_foot_to_ball_strict_left_witness:
  "euclidean_distance (1, 4) (0, 4) = euclidean_distance (1, 4) (2, 4) \<and>
   closest_foot_to_ball
     (Player (Some \<lparr>points = [(0, 0), (2, 4)], absolute_points = [(0, 0), (2, 4)],
                    data = Map.empty\<rparr>))
     \<lparr>ball_center = Some (1, 4), ball_center_abs = Some (1, 4),
      ball_detection = Some \<lparr>det_center = Some (1, 4)\<rparr>,
      last_detection = None\<rparr> = Inr (Some (2, 4)) \<and>
   soccer_closest_foot_to_ball
     (soccer_Player (Some \<lparr>points = [(0, 0), (2, 4)], absolute_points = [(0, 0), (2, 4)],
                    data = Map.empty\<rparr>))
     \<lparr>ball_center = Some (1, 4), ball_center_abs = Some (1, 4),
      ball_detection = Some \<lparr>det_center = Some (1, 4)\<rparr>,
      last_detection = None\<rparr> = Inr (Some (2, 4))"
  using closest_foot_to_ball_strict_left
    [of "\<lparr>ball_center = Some (1, 4), ball_center_abs = Some (1, 4),
      ball_detection = Some \<lparr>det_center = Some (1, 4)\<rparr>,
      last_detection = None\<rparr>" "(1, 4)"
        "\<lparr>points = [(0, 0), (2, 4)], absolute_points = [(0, 0), (2, 4)],
                    data = Map.empty\<rparr>"
        "Player (Some \<lparr>points = [(0, 0), (2, 4)], absolute_points = [(0, 0), (2, 4)],
                    data = Map.empty\<rparr>)"
        "soccer_Player (Some \<lparr>points = [(0, 0), (2, 4)], absolute_points = [(0, 0), (2, 4)],
                    data = Map.empty\<rparr>)"]
  by (simp add: Player_def soccer_Player_def euclidean_distance_def Let_def)

section \<open>Closest center in absolute coordinates\<close>

text \<open>
  C6 (the code at a frame whose camera moved by \<open>(10,10)\<close>). The player's box is
  \<open>((0,0),(2,2))\<close> in pixels and \<open>((10,10),(12,12))\<close> in absolute coordinates; the ball is
  at the player's center in both spaces, \<open>(1,1)\<close> and \<open>(11,11)\<close>. The absolute
  center-to-center distance is 0 and so is the pixel distance, but \<^verbatim>\<open>center_abs\<close> returns the
  pixel center \<open>(1,1)\<close>, since \<^verbatim>\<open>get_center\<close> discards the absolute points it is given, and
  \<^verbatim>\<open>closest_center_to_ball_abs\<close> returns \<^verbatim>\<open>None\<close> instead of the center.
\<close>

theorem closest_center_to_ball_abs_translated_camera:
  "center (Player (Some \<lparr>points = [(0, 0), (2, 2)], absolute_points = [(10, 10), (12, 12)],
                         data = Map.empty\<rparr>)) = Inr (1, 1) \<and>
   center_abs (Player (Some \<lparr>points = [(0, 0), (2, 2)],
                         absolute_points = [(10, 10), (12, 12)],
                         data = Map.empty\<rparr>)) = Inr (1, 1) \<and>
   euclidean_distance (11, 11) ((10 + 12) / 2, (10 + 12) / 2) \<le> euclidean_distance (1, 1) (1, 1) \<and>
   closest_center_to_ball_abs
     (Player (Some \<lparr>points = [(0, 0), (2, 2)], absolute_points = [(10, 10), (12, 12)],
                    data = Map.empty\<rparr>))
     \<lparr>ball_center = Some (1, 1), ball_center_abs = Some (11, 11),
      ball_detection = Some \<lparr>det_center = Some (1, 1)\<rparr>,
      last_detection = None\<rparr> = Inr None"
  by (simp add: Player_def center_def center_abs_def get_center_def row_def bind_err_def
      euclidean_distance_def closest_center_to_ball_abs_def distance_to_ball_def
      linalg_norm_def sub_def)

section \<open>Distance to the last known ball\<close>

text \<open>
  C7. For a player with a detection and a ball whose current center is \<^verbatim>\<open>None\<close>: if the
  ball retains a last detection with a center, \<^verbatim>\<open>distance_to_last_ball\<close> returns the
  Euclidean distance from that center to the player's center (the detection having at
  least two points); if there is no last detection, or it has no center, it returns
  \<^verbatim>\<open>None\<close>.
\<close>

theorem distance_to_last_ball_fallback:
  assumes "detection p = Some d" and "ball_center b = None"
  shows
    "(2 \<le> length (points d) \<and> last_detection b = Some ld \<and> det_center ld = Some lc \<longrightarrow>
        (let c = ((fst (points d ! 0) + fst (points d ! 1)) / 2,
                  (snd (points d ! 0) + snd (points d ! 1)) / 2)
         in center p = Inr c \<and>
            distance_to_last_ball p b = Inr (Some (euclidean_distance lc c)))) \<and>
     (last_detection b = None \<longrightarrow> distance_to_last_ball p b = Inr None) \<and>
     (last_detection b = Some ld \<and> det_center ld = None \<longrightarrow>
        distance_to_last_ball p b = Inr None)"
  using assms
  by (simp add: Let_def distance_to_last_ball_def center_ok bind_err_def linalg_norm_sub)

text \<open>
  The box \<open>((0,0),(2,4))\<close> with center \<open>(1,2)\<close>: a last detection at \<open>(1,5)\<close> is at distance 3;
  no last detection, or one without center, gives \<^verbatim>\<open>None\<close>.
\<close>

theorem distance_to_last_ball_fallback_witness:
  "distance_to_last_ball
     (Player (Some \<lparr>points = [(0, 0), (2, 4)], absolute_points = [(0, 0), (2, 4)],
                    data = Map.empty\<rparr>))
     \<lparr>ball_center = None, ball_center_abs = None, ball_detection = None,
      last_detection = Some \<lparr>det_center = Some (1, 5)\<rparr>\<rparr> = Inr (Some 3) \<and>
   distance_to_last_ball
     (Player (Some \<lparr>points = [(0, 0), (2, 4)], absolute_points = [(0, 0), (2, 4)],
                    data = Map.empty\<rparr>))
     \<lparr>ball_center = None, ball_center_abs = None, ball_detection = None,
      last_detection = None\<rparr> = Inr None \<and>
   distance_to_last_ball
     (Player (Some \<lparr>points = [(0, 0), (2, 4)], absolute_points = [(0, 0), (2, 4)],
                    data = Map.empty\<rparr>))
     \<lparr>ball_center = None, ball_center_abs = None, ball_detection = None,
      last_detection = Some \<lparr>det_center = None\<rparr>\<rparr> = Inr None"
  using distance_to_last_ball_fallback
    [of "Player (Some \<lparr>points = [(0, 0), (2, 4)], absolute_points = [(0, 0), (2, 4)],
                    data = Map.empty\<rparr>)"
        "\<lparr>points = [(0, 0), (2, 4)], absolute_points = [(0, 0), (2, 4)],
                    data = Map.empty\<rparr>"
        "\<lparr>ball_center = None, ball_center_abs = None, ball_detection = None,
      last_detection = Some \<lparr>det_center = Some (1, 5)\<rparr>\<rparr>"
        "\<lparr>det_center = Some (1, 5)\<rparr>" "(1, 5)"]
    distance_to_last_ball_fallback
    [of "Player (Some \<lparr>points = [(0, 0), (2, 4)], absolute_points = [(0, 0), (2, 4)],
                    data = Map.empty\<rparr>)"
        "\<lparr>points = [(0, 0), (2, 4)], absolute_points = [(0, 0), (2, 4)],
                    data = Map.empty\<rparr>"
        "\<lparr>ball_center = None, ball_center_abs = None, ball_detection = None,
      last_detection = None\<rparr>"]
    distance_to_last_ball_fallback
    [of "Player (Some \<lparr>points = [(0, 0), (2, 4)], absolute_points = [(0, 0), (2, 4)],
                    data = Map.empty\<rparr>)"
        "\<lparr>points = [(0, 0), (2, 4)], absolute_points = [(0, 0), (2, 4)],
                    data = Map.empty\<rparr>"
        "\<lparr>ball_center = None, ball_center_abs = None, ball_detection = None,
      last_detection = Some \<lparr>det_center = None\<rparr>\<rparr>"
        "\<lparr>det_center = None\<rparr>"]
  by (simp add: Player_def euclidean_distance_def Let_def)

section \<open>Identity\<close>

text \<open>
  C8 (as the code has it). Comparing a player with a value that is not a Player yields
  \<^verbatim>\<open>False\<close> and never raises. For two players whose detections carry an \<^verbatim>\<open>"id"\<close>, the
  result is the equality of the two identifiers and nothing else. When the left player has
  no detection the comparison with a Player raises AttributeError: two players without
  detection are never reported equal, but no \<^verbatim>\<open>False\<close> is returned either.
\<close>

theorem player_eq_by_id:
  "player_eq self NotAPlayer = Inr False \<and>
   (detection self = Some d1 \<and> data d1 ''id'' = Some i1 \<and>
    detection other = Some d2 \<and> data d2 ''id'' = Some i2 \<longrightarrow>
      player_eq self (PlayerObj other) = Inr (i1 = i2)) \<and>
   (detection self = None \<longrightarrow> player_eq self (PlayerObj other) = Inl AttributeError)"
  by (simp add: player_eq_def lookup_id_def bind_err_def)

text \<open>Two players built from no detection: \<^verbatim>\<open>==\<close> raises instead of answering.\<close>

theorem player_eq_null_detections_counterexample:
  "player_eq (Player None) (PlayerObj (Player None)) = Inl AttributeError"
  by (simp add: player_eq_def lookup_id_def bind_err_def Player_def)

text \<open>
  Same identifier 7 on different boxes: equal. Identifiers 7 and 8 on the same box: not
  equal. No detection: AttributeError against a Player, \<^verbatim>\<open>False\<close> against anything else.
\<close>

theorem player_eq_by_id_witness:
  "player_eq
     (Player (Some \<lparr>points = [(0, 0), (2, 4)], absolute_points = [(0, 0), (2, 4)],
                    data = [''id'' \<mapsto> PyInt 7]\<rparr>))
     (PlayerObj (Player (Some \<lparr>points = [(10, 0), (12, 4)],
                    absolute_points = [(10, 0), (12, 4)],
                    data = [''id'' \<mapsto> PyInt 7]\<rparr>))) = Inr True \<and>
   player_eq
     (Player (Some \<lparr>points = [(0, 0), (2, 4)], absolute_points = [(0, 0), (2, 4)],
                    data = [''id'' \<mapsto> PyInt 7]\<rparr>))
     (PlayerObj (Player (Some \<lparr>points = [(0, 0), (2, 4)],
                    absolute_points = [(0, 0), (2, 4)],
                    data = [''id'' \<mapsto> PyInt 8]\<rparr>))) = Inr False \<and>
   player_eq (Player None) (PlayerObj (Player None)) = Inl AttributeError \<and>
   player_eq (Player None) NotAPlayer = Inr False"
  using player_eq_by_id
    [of "Player (Some \<lparr>points = [(0, 0), (2, 4)], absolute_points = [(0, 0), (2, 4)],
                    data = [''id'' \<mapsto> PyInt 7]\<rparr>)"
        "\<lparr>points = [(0, 0), (2, 4)], absolute_points = [(0, 0), (2, 4)],
                    data = [''id'' \<mapsto> PyInt 7]\<rparr>" "PyInt 7"
        "Player (Some \<lparr>points = [(10, 0), (12, 4)],
                    absolute_points = [(10, 0), (12, 4)],
                    data = [''id'' \<mapsto> PyInt 7]\<rparr>)"
        "\<lparr>points = [(10, 0), (12, 4)],
                    absolute_points = [(10, 0), (12, 4)],
                    data = [''id'' \<mapsto> PyInt 7]\<rparr>" "PyInt 7"]
    player_eq_by_id
    [of "Player (Some \<lparr>points = [(0, 0), (2, 4)], absolute_points = [(0, 0), (2, 4)],
                    data = [''id'' \<mapsto> PyInt 7]\<rparr>)"
        "\<lparr>points = [(0, 0), (2, 4)], absolute_points = [(0, 0), (2, 4)],
                    data = [''id'' \<mapsto> PyInt 7]\<rparr>" "PyInt 7"
        "Player (Some \<lparr>points = [(0, 0), (2, 4)],
                    absolute_points = [(0, 0), (2, 4)],
                    data = [''id'' \<mapsto> PyInt 8]\<rparr>)"
        "\<lparr>points = [(0, 0), (2, 4)],
                    absolute_points = [(0, 0), (2, 4)],
                    data = [''id'' \<mapsto> PyInt 8]\<rparr>" "PyInt 8"]
    player_eq_by_id [of "Player None" _ _ "Player None"]
  by (simp add: Player_def)

text \<open>
  C10 (as the code has it). \<^verbatim>\<open>have_same_id\<close> returns \<^verbatim>\<open>False\<close> when either argument is
  \<^verbatim>\<open>None\<close>. For two players that both have a detection it returns \<^verbatim>\<open>False\<close> when either
  attribute map lacks \<^verbatim>\<open>"id"\<close> and otherwise the equality of the two identifiers, and it
  does not raise. When the first player has no detection it raises AttributeError.
\<close>

theorem have_same_id_on_detected_players:
  "(player1 = None \<or> player2 = None \<longrightarrow> have_same_id player1 player2 = Inr False) \<and>
   (player1 = Some p1 \<and> player2 = Some p2 \<and>
    detection p1 = Some d1 \<and> detection p2 = Some d2 \<longrightarrow>
      have_same_id player1 player2 =
        Inr (case data d1 ''id'' of
               None \<Rightarrow> False
             | Some i1 \<Rightarrow> (case data d2 ''id'' of None \<Rightarrow> False | Some i2 \<Rightarrow> i1 = i2))) \<and>
   (player1 = Some p1 \<and> player2 = Some p2 \<and> detection p1 = None \<longrightarrow>
      have_same_id player1 player2 = Inl AttributeError)"
  by (auto simp: have_same_id_def player_eq_def lookup_id_def bind_err_def
      split: option.splits)

text \<open>
  The second player's attribute map lacks \<^verbatim>\<open>"id"\<close>, the first player has no detection:
  AttributeError, not \<^verbatim>\<open>False\<close>.
\<close>

theorem have_same_id_null_detection_counterexample:
  "data \<lparr>points = [(0, 0), (2, 4)], absolute_points = [(0, 0), (2, 4)],
          data = Map.empty\<rparr> ''id'' = None \<and>
   have_same_id (Some (Player None))
     (Some (Player (Some \<lparr>points = [(0, 0), (2, 4)], absolute_points = [(0, 0), (2, 4)],
                          data = Map.empty\<rparr>))) = Inl AttributeError"
  by (simp add: have_same_id_def Player_def)

text \<open>
  Identifier 7 on both sides: \<^verbatim>\<open>True\<close>. An attribute map without \<^verbatim>\<open>"id"\<close>: \<^verbatim>\<open>False\<close>.
  A \<^verbatim>\<open>None\<close> argument: \<^verbatim>\<open>False\<close>. Two players without detection: AttributeError.
\<close>

theorem have_same_id_on_detected_players_witness:
  "have_same_id
     (Some (Player (Some \<lparr>points = [(0, 0), (2, 4)], absolute_points = [(0, 0), (2, 4)],
                    data = [''id'' \<mapsto> PyInt 7]\<rparr>)))
     (Some (Player (Some \<lparr>points = [(10, 0), (12, 4)],
                    absolute_points = [(10, 0), (12, 4)],
                    data = [''id'' \<mapsto> PyInt 7]\<rparr>))) = Inr True \<and>
   have_same_id
     (Some (Player (Some \<lparr>points = [(0, 0), (2, 4)], absolute_points = [(0, 0), (2, 4)],
                    data = [''id'' \<mapsto> PyInt 7]\<rparr>)))
     (Some (Player (Some \<lparr>points = [(10, 0), (12, 4)],
                    absolute_points = [(10, 0), (12, 4)],
                    data = Map.empty\<rparr>))) = Inr False \<and>
   have_same_id None (Some (Player None)) = Inr False \<and>
   have_same_id (Some (Player None)) (Some (Player None)) = Inl AttributeError"
  using have_same_id_on_detected_players
    [of "Some (Player (Some \<lparr>points = [(0, 0), (2, 4)], absolute_points = [(0, 0), (2, 4)],
                    data = [''id'' \<mapsto> PyInt 7]\<rparr>))"
        "Some (Player (Some \<lparr>points = [(10, 0), (12, 4)],
                    absolute_points = [(10, 0), (12, 4)],
                    data = [''id'' \<mapsto> PyInt 7]\<rparr>))"
        "Player (Some \<lparr>points = [(0, 0), (2, 4)], absolute_points = [(0, 0), (2, 4)],
                    data = [''id'' \<mapsto> PyInt 7]\<rparr>)"
        "Player (Some \<lparr>points = [(10, 0), (12, 4)],
                    absolute_points = [(10, 0), (12, 4)],
                    data = [''id'' \<mapsto> PyInt 7]\<rparr>)"
        "\<lparr>points = [(0, 0), (2, 4)], absolute_points = [(0, 0), (2, 4)],
                    data = [''id'' \<mapsto> PyInt 7]\<rparr>"
        "\<lparr>points = [(10, 0), (12, 4)],
                    absolute_points = [(10, 0), (12, 4)],
                    data = [''id'' \<mapsto> PyInt 7]\<rparr>"]
    have_same_id_on_detected_players
    [of "Some (Player (Some \<lparr>points = [(0, 0), (2, 4)], absolute_points = [(0, 0), (2, 4)],
                    data = [''id'' \<mapsto> PyInt 7]\<rparr>))"
        "Some (Player (Some \<lparr>points = [(10, 0), (12, 4)],
                    absolute_points = [(10, 0), (12, 4)],
                    data = Map.empty\<rparr>))"
        "Player (Some \<lparr>points = [(0, 0), (2, 4)], absolute_points = [(0, 0), (2, 4)],
                    data = [''id'' \<mapsto> PyInt 7]\<rparr>)"
        "Player (Some \<lparr>points = [(10, 0), (12, 4)],
                    absolute_points = [(10, 0), (12, 4)],
                    data = Map.empty\<rparr>)"
        "\<lparr>points = [(0, 0), (2, 4)], absolute_points = [(0, 0), (2, 4)],
                    data = [''id'' \<mapsto> PyInt 7]\<rparr>"
        "\<lparr>points = [(10, 0), (12, 4)],
                    absolute_points = [(10, 0), (12, 4)],
                    data = Map.empty\<rparr>"]
    have_same_id_on_detected_players [of None "Some (Player None)"]
    have_same_id_on_detected_players
    [of "Some (Player None)" "Some (Player None)" "Player None" "Player None"]
  by (simp add: Player_def)

section \<open>The exclusion mask\<close>

lemma assign_rect_empty_rows: "r1 \<le> r0 \<Longrightarrow> assign_rect m r0 r1 c0 c1 v = m"
proof -
  assume "r1 \<le> r0"
  then have "slice_indices r0 r1 (length m) = []"
    by (simp add: slice_indices_def)
  then have "assign_rect m r0 r1 c0 c1 v = map snd (enumerate 0 m)"
    by (simp add: assign_rect_def case_prod_unfold)
  then show ?thesis by simp
qed

text \<open>
  C3 (the code on every frame). The two fixed slices \<^verbatim>\<open>mask[363:118, 856:64]\<close> and
  \<^verbatim>\<open>mask[1589:143, 1805:95]\<close> start above their stop and select no pixel, so
  \<^verbatim>\<open>create_mask\<close> zeroes nothing of its own: with no detections the mask is all ones,
  with detections it is the mask of \<^verbatim>\<open>generate_predictions_mask\<close> unchanged.
\<close>

theorem create_mask_fixed_slices_select_nothing:
  "create_mask to_df gen_mask fr [] =
     replicate (fst (shape fr)) (replicate (snd (shape fr)) 1) \<and>
   create_mask to_df gen_mask fr detections =
     (if detections = [] then replicate (fst (shape fr)) (replicate (snd (shape fr)) 1)
      else gen_mask (to_df detections) fr 40) \<and>
   slice_indices 363 118 (fst (shape fr)) = [] \<and>
   slice_indices 1589 143 (fst (shape fr)) = []"
  by (simp add: create_mask_def Let_def assign_rect_empty_rows ones_def slice_indices_def)

section \<open>Players from detections\<close>

lemma from_detections_loop_eq:
  "from_detections_loop from_name teams ds acc =
     acc @ map (\<lambda>d. Player (Some (write_team from_name teams d)))
             (map the (filter (\<lambda>x. x \<noteq> None) ds))"
proof (induction ds arbitrary: acc)
  case Nil
  then show ?case by simp
next
  case (Cons x ds)
  then show ?case by (cases x) simp_all
qed

lemma soccer_from_detections_loop_eq:
  "soccer_from_detections_loop from_name teams ds acc =
     acc @ map (\<lambda>d. soccer_Player (Some (write_team from_name teams d)))
             (map the (filter (\<lambda>x. x \<noteq> None) ds))"
proof (induction ds arbitrary: acc)
  case Nil
  then show ?case by simp
next
  case (Cons x ds)
  then show ?case by (cases x) simp_all
qed

text \<open>
  C9. \<^verbatim>\<open>from_detections\<close> makes one player per detection that is not \<^verbatim>\<open>None\<close>, in input
  order: the result is no longer than the input, null detections are skipped, and
  detections with the same identifier each keep their player. A detection that carries a
  \<^verbatim>\<open>"classification"\<close> has the Team resolved from it written under \<^verbatim>\<open>"team"\<close> in its
  attribute map, and the player built from it has that Team. The same holds in
  \<^verbatim>\<open>soccer/player.py\<close>.
\<close>

theorem from_detections_skips_null_keeps_order:
  "(let survivors = map the (filter (\<lambda>x. x \<noteq> None) detections);
        annotate = (\<lambda>d. case data d ''classification'' of
                           None \<Rightarrow> d
                         | Some team_name \<Rightarrow>
                             d\<lparr>data := (data d)(''team'' \<mapsto> from_name teams team_name)\<rparr>);
        resolved = (\<lambda>d. case data d ''classification'' of
                           None \<Rightarrow> (case data d ''team'' of None \<Rightarrow> PyNone | Some t \<Rightarrow> t)
                         | Some team_name \<Rightarrow> from_name teams team_name);
        players = from_detections from_name detections teams;
        soccer_players = soccer_from_detections from_name detections teams
    in length players \<le> length detections \<and>
       length players = length survivors \<and>
       map detection players = map (\<lambda>d. Some (annotate d)) survivors \<and>
       map (\<lambda>p. map_option points (detection p)) players = map (\<lambda>d. Some (points d)) survivors \<and>
       map (\<lambda>p. map_option (\<lambda>d. data d ''id'') (detection p)) players =
         map (\<lambda>d. Some (data d ''id'')) survivors \<and>
       map team players = map resolved survivors \<and>
       length soccer_players \<le> length detections \<and>
       map s_detection soccer_players = map (\<lambda>d. Some (annotate d)) survivors \<and>
       map s_team soccer_players = map resolved survivors)"
  by (auto simp: Let_def from_detections_def soccer_from_detections_def
      from_detections_loop_eq soccer_from_detections_loop_eq Player_def soccer_Player_def
      write_team_def o_def split: option.splits
      intro: le_trans [OF length_filter_le])


text \<open>
  Four detections: identifier 7 classified \<^verbatim>\<open>"TeamRed"\<close>, \<^verbatim>\<open>None\<close>, identifier 7 again,
  identifier 9 classified \<^verbatim>\<open>"Unknown"\<close>; the roster holds \<^verbatim>\<open>TeamRed\<close>. Three players
  come back, in order, the duplicate kept, the unknown label resolved to \<^verbatim>\<open>None\<close>.
\<close>

theorem from_detections_skips_null_keeps_order_witness:
  "length (from_detections from_name_spec
             [Some \<lparr>points = [(0, 0), (2, 4)], absolute_points = [(0, 0), (2, 4)],
                     data = [''id'' \<mapsto> PyInt 7, ''classification'' \<mapsto> PyStr ''TeamRed'']\<rparr>,
              None,
              Some \<lparr>points = [(0, 0), (2, 4)], absolute_points = [(0, 0), (2, 4)],
                     data = [''id'' \<mapsto> PyInt 7, ''classification'' \<mapsto> PyStr ''TeamRed'']\<rparr>,
              Some \<lparr>points = [(10, 0), (12, 4)], absolute_points = [(10, 0), (12, 4)],
                     data = [''id'' \<mapsto> PyInt 9, ''classification'' \<mapsto> PyStr ''Unknown'']\<rparr>]
             [\<lparr>name = ''TeamRed'', color = (255, 0, 0)\<rparr>]) = 3 \<and>
   map team (from_detections from_name_spec
             [Some \<lparr>points = [(0, 0), (2, 4)], absolute_points = [(0, 0), (2, 4)],
                     data = [''id'' \<mapsto> PyInt 7, ''classification'' \<mapsto> PyStr ''TeamRed'']\<rparr>,
              None,
              Some \<lparr>points = [(0, 0), (2, 4)], absolute_points = [(0, 0), (2, 4)],
                     data = [''id'' \<mapsto> PyInt 7, ''classification'' \<mapsto> PyStr ''TeamRed'']\<rparr>,
              Some \<lparr>points = [(10, 0), (12, 4)], absolute_points = [(10, 0), (12, 4)],
                     data = [''id'' \<mapsto> PyInt 9, ''classification'' \<mapsto> PyStr ''Unknown'']\<rparr>]
             [\<lparr>name = ''TeamRed'', color = (255, 0, 0)\<rparr>]) =
     [PyTeam \<lparr>name = ''TeamRed'', color = (255, 0, 0)\<rparr>,
      PyTeam \<lparr>name = ''TeamRed'', color = (255, 0, 0)\<rparr>, PyNone] \<and>
   map (\<lambda>p. map_option (\<lambda>d. data d ''id'') (detection p))
       (from_detections from_name_spec
             [Some \<lparr>points = [(0, 0), (2, 4)], absolute_points = [(0, 0), (2, 4)],
                     data = [''id'' \<mapsto> PyInt 7, ''classification'' \<mapsto> PyStr ''TeamRed'']\<rparr>,
              None,
              Some \<lparr>points = [(0, 0), (2, 4)], absolute_points = [(0, 0), (2, 4)],
                     data = [''id'' \<mapsto> PyInt 7, ''classification'' \<mapsto> PyStr ''TeamRed'']\<rparr>,
              Some \<lparr>points = [(10, 0), (12, 4)], absolute_points = [(10, 0), (12, 4)],
                     data = [''id'' \<mapsto> PyInt 9, ''classification'' \<mapsto> PyStr ''Unknown'']\<rparr>]
             [\<lparr>name = ''TeamRed'', color = (255, 0, 0)\<rparr>]) =
     [Some (Some (PyInt 7)), Some (Some (PyInt 7)), Some (Some (PyInt 9))]"
  using from_detections_skips_null_keeps_order
    [of "[Some \<lparr>points = [(0, 0), (2, 4)], absolute_points = [(0, 0), (2, 4)],
                     data = [''id'' \<mapsto> PyInt 7, ''classification'' \<mapsto> PyStr ''TeamRed'']\<rparr>,
              None,
              Some \<lparr>points = [(0, 0), (2, 4)], absolute_points = [(0, 0), (2, 4)],
                     data = [''id'' \<mapsto> PyInt 7, ''classification'' \<mapsto> PyStr ''TeamRed'']\<rparr>,
              Some \<lparr>points = [(10, 0), (12, 4)], absolute_points = [(10, 0), (12, 4)],
                     data = [''id'' \<mapsto> PyInt 9, ''classification'' \<mapsto> PyStr ''Unknown'']\<rparr>]"
        from_name_spec "[\<lparr>name = ''TeamRed'', color = (255, 0, 0)\<rparr>]"]
  by (simp add: Let_def from_name_spec_def)

end
